theory Spec2Isabelle
  imports Main "HOL-Library.Word"
begin

unbundle bit_operations_syntax

section \<open>Network I/O of libcoap on RIOT (coap\_io\_riot.c)\<close>

text \<open>
  A shallow embedding of \<^verbatim>\<open>src/coap_io_riot.c\<close>: the send path
  \<^verbatim>\<open>coap_network_send\<close>, the receive path \<^verbatim>\<open>coap_network_read\<close>, the port lookup
  \<^verbatim>\<open>get_port\<close> and one pass of the event loop, \<^verbatim>\<open>coap_run_once\<close>.

  The target is a 32-bit RIOT platform: \<^verbatim>\<open>int\<close>, \<^verbatim>\<open>unsigned\<close>, \<^verbatim>\<open>size_t\<close> and
  \<^verbatim>\<open>ssize_t\<close> are 32-bit words (signed types are read with \<open>sint\<close>), \<^verbatim>\<open>coap_tick_t\<close>
  is a 64-bit word. Diagnostic output (\<^verbatim>\<open>coap_log\<close>, \<^verbatim>\<open>udp_hdr_print\<close>,
  \<^verbatim>\<open>coap_print_addr\<close>) changes nothing the functions return or store and is left out.
\<close>

subsection \<open>Machine types\<close>

type_synonym uint8_t = "8 word"
type_synonym uint16_t = "16 word"
type_synonym uint32_t = "32 word"
type_synonym int_t = "32 word"
type_synonym size_t = "32 word"
type_synonym ssize_t = "32 word"
type_synonym coap_tick_t = "64 word"

text \<open>A pointer is an address; \<open>NULL\<close> is address 0. Byte memory maps addresses to bytes.\<close>

type_synonym ptr = nat
type_synonym memory = "ptr \<Rightarrow> uint8_t"

definition NULL :: ptr where
  "NULL = 0"

subsection \<open>Constants taken from headers outside this file\<close>

text \<open>
  The macros below are used by the file but defined in headers that are not part of it
  (\<^verbatim>\<open>coap_io.h\<close>, \<^verbatim>\<open>coap_time.h\<close>, \<^verbatim>\<open>coap_riot.h\<close>, \<^verbatim>\<open>errno.h\<close>,
  \<^verbatim>\<open>sys/socket.h\<close>, \<^verbatim>\<open>timex.h\<close>, \<^verbatim>\<open>net/gnrc/netapi.h\<close>). Their values are
  parameters of the model. \<open>big_endian\<close> is the byte order of the host.
\<close>

record config =
  COAP_SOCKET_CONNECTED :: uint16_t
  COAP_SOCKET_WANT_READ :: uint16_t
  COAP_SOCKET_CAN_READ :: uint16_t
  COAP_RXBUFFER_SIZE :: size_t
  COAP_TICKS_PER_SECOND :: coap_tick_t
  LIBCOAP_MAX_SOCKETS :: nat
  EFAULT :: int_t
  AF_INET :: uint16_t
  AF_INET6 :: uint16_t
  sizeof_sockaddr_in6 :: uint32_t
  US_PER_SEC :: uint32_t
  GNRC_NETAPI_MSG_TYPE_RCV :: uint16_t
  GNRC_NETAPI_MSG_TYPE_SND :: uint16_t
  GNRC_NETAPI_MSG_TYPE_SET :: uint16_t
  GNRC_NETAPI_MSG_TYPE_GET :: uint16_t
  big_endian :: bool

text \<open>
  One concrete configuration, with the values usual for libcoap on a little-endian
  32-bit RIOT board; used wherever a theorem is instantiated.
\<close>

definition riot_config :: config where
  "riot_config = \<lparr>
     COAP_SOCKET_CONNECTED = 0x0004,
     COAP_SOCKET_WANT_READ = 0x0010,
     COAP_SOCKET_CAN_READ = 0x0100,
     COAP_RXBUFFER_SIZE = 1472,
     COAP_TICKS_PER_SECOND = 1000,
     LIBCOAP_MAX_SOCKETS = 16,
     EFAULT = 14,
     AF_INET = 3,
     AF_INET6 = 4,
     sizeof_sockaddr_in6 = 28,
     US_PER_SEC = 1000000,
     GNRC_NETAPI_MSG_TYPE_RCV = 0x0201,
     GNRC_NETAPI_MSG_TYPE_SND = 0x0202,
     GNRC_NETAPI_MSG_TYPE_SET = 0x0203,
     GNRC_NETAPI_MSG_TYPE_GET = 0x0204,
     big_endian = False \<rparr>"

subsection \<open>Addresses, sockets, sessions, packets\<close>

text \<open>
  \<^verbatim>\<open>coap_address_t\<close> is a size and a union of \<^verbatim>\<open>sockaddr\<close>, \<^verbatim>\<open>sockaddr_in\<close> and
  \<^verbatim>\<open>sockaddr_in6\<close>. The three views share the family field; the other members of each
  view are separate fields here, so nothing is derived from how the union overlays them:
  a write through one view leaves the fields of the other views as they were, where in C
  they would show the same bytes. No property below reads a field through a view other
  than the one it was written through.
  Ports are \<^verbatim>\<open>uint16_t\<close> values as they lie in host memory (network byte order).
\<close>

record sockaddr_u =
  sa_family :: uint16_t
  sin_port :: uint16_t
  sin_addr :: "uint8_t list"
  sin6_port :: uint16_t
  sin6_flowinfo :: uint32_t
  sin6_addr :: "uint8_t list"
  sin6_scope_id :: uint32_t

record coap_address_t =
  size_f :: uint32_t
  addr :: sockaddr_u

datatype gnrc_nettype_t =
    GNRC_NETTYPE_NETIF
  | GNRC_NETTYPE_UNDEF
  | GNRC_NETTYPE_SIXLOWPAN
  | GNRC_NETTYPE_IPV6
  | GNRC_NETTYPE_ICMPV6
  | GNRC_NETTYPE_TCP
  | GNRC_NETTYPE_UDP

text \<open>
  A fragment chain (\<^verbatim>\<open>gnrc_pktsnip_t *\<close>) is the list of its snips in \<^verbatim>\<open>next\<close> order;
  the empty list is the null pointer. A snip records where its data lies in memory.
\<close>

record gnrc_pktsnip_t =
  data :: ptr
  size_snip :: size_t
  type_snip :: gnrc_nettype_t

type_synonym chain = "gnrc_pktsnip_t list"

record coap_socket_t =
  fd :: int_t
  flags :: uint16_t
  pkt :: chain

record coap_session_t =
  remote_addr :: coap_address_t

record coap_packet_t =
  src :: coap_address_t
  dst :: coap_address_t
  ifindex :: int_t
  length_f :: size_t
  payload :: "uint8_t list"

subsection \<open>Send path\<close>

text \<open>
  The send path talks to three outside functions: \<^verbatim>\<open>coap_debug_send_packet\<close> (zero means
  the packet is to be dropped silently), \<^verbatim>\<open>send\<close> and \<^verbatim>\<open>sendto\<close>. Their results are
  given by the record \<open>net_sys\<close>; every call made to the network is returned in a list.
\<close>

datatype net_call =
    Call_send int_t "uint8_t list" size_t int_t
  | Call_sendto int_t "uint8_t list" size_t int_t sockaddr_u uint32_t

record net_sys =
  coap_debug_send_packet :: int_t
  sys_send :: "int_t \<Rightarrow> uint8_t list \<Rightarrow> size_t \<Rightarrow> int_t \<Rightarrow> ssize_t"
  sys_sendto :: "int_t \<Rightarrow> uint8_t list \<Rightarrow> size_t \<Rightarrow> int_t \<Rightarrow> sockaddr_u \<Rightarrow> uint32_t \<Rightarrow> ssize_t"

definition coap_network_send ::
  "config \<Rightarrow> net_sys \<Rightarrow> coap_socket_t \<Rightarrow> coap_session_t \<Rightarrow> uint8_t list \<Rightarrow> size_t
     \<Rightarrow> ssize_t \<times> net_call list" where
  "coap_network_send K N sock session buf datalen =
     (if coap_debug_send_packet N = 0 then
        (datalen, [])
      else if flags sock AND COAP_SOCKET_CONNECTED K \<noteq> 0 then
        (sys_send N (fd sock) buf datalen 0, [Call_send (fd sock) buf datalen 0])
      else
        (sys_sendto N (fd sock) buf datalen 0
           (addr (remote_addr session)) (size_f (remote_addr session)),
         [Call_sendto (fd sock) buf datalen 0
           (addr (remote_addr session)) (size_f (remote_addr session))]))"

subsection \<open>Port lookup\<close>

text \<open>\<^verbatim>\<open>get_port\<close>; \<open>None\<close> is the null pointer.\<close>

definition get_port :: "config \<Rightarrow> coap_address_t option \<Rightarrow> uint16_t" where
  "get_port K a =
     (case a of
        None \<Rightarrow> 0
      | Some x \<Rightarrow>
          (if sa_family (addr x) = AF_INET K then sin_port (addr x)
           else if sa_family (addr x) = AF_INET6 K then sin6_port (addr x)
           else 0))"

subsection \<open>Fragment chains (RIOT's gnrc packet API)\<close>

text \<open>
  \<^verbatim>\<open>gnrc_pktsnip_search_type\<close>, \<^verbatim>\<open>gnrc_pkt_len_upto\<close> and \<^verbatim>\<open>gnrc_ipv6_get_header\<close>
  belong to RIOT, not to libcoap. They are modelled as RIOT documents them: the search
  follows \<^verbatim>\<open>next\<close> to the first snip of the type (the result is the chain from that
  snip on, empty for a null result); the length adds the snip sizes up to and including
  the first snip of the type; the IPv6 accessor returns the data pointer of the first
  IPv6 snip, and \<open>NULL\<close> when there is none. RIOT requires an IPv6 snip to hold an
  IPv6 header; here a snip whose first byte does not carry version 6 counts as holding
  none. The properties of the receive path below depend on the accessor only through
  whether its result is \<open>NULL\<close>.
\<close>

fun gnrc_pktsnip_search_type :: "chain \<Rightarrow> gnrc_nettype_t \<Rightarrow> chain" where
  "gnrc_pktsnip_search_type [] t = []"
| "gnrc_pktsnip_search_type (s # rest) t =
     (if type_snip s = t then s # rest else gnrc_pktsnip_search_type rest t)"

fun gnrc_pkt_len_upto :: "chain \<Rightarrow> gnrc_nettype_t \<Rightarrow> size_t" where
  "gnrc_pkt_len_upto [] t = 0"
| "gnrc_pkt_len_upto (s # rest) t =
     size_snip s + (if type_snip s = t then 0 else gnrc_pkt_len_upto rest t)"

definition ipv6_hdr_is :: "memory \<Rightarrow> ptr \<Rightarrow> bool" where
  "ipv6_hdr_is m hdr = (drop_bit 4 (m hdr) = 6)"

definition gnrc_ipv6_get_header :: "memory \<Rightarrow> chain \<Rightarrow> ptr" where
  "gnrc_ipv6_get_header m p =
     (case gnrc_pktsnip_search_type p GNRC_NETTYPE_IPV6 of
        [] \<Rightarrow> NULL
      | tmp # _ \<Rightarrow> if ipv6_hdr_is m (data tmp) then data tmp else NULL)"

text \<open>
  Header layouts are fixed by the protocols: \<^verbatim>\<open>udp_hdr_t\<close> is source port, destination
  port, length and checksum, two bytes each; \<^verbatim>\<open>ipv6_hdr_t\<close> has the source address at
  offset 8 and the destination address at offset 24, sixteen bytes each.
\<close>

definition sizeof_udp_hdr_t :: nat where
  "sizeof_udp_hdr_t = 8"

definition sizeof_ipv6_addr_t :: nat where
  "sizeof_ipv6_addr_t = 16"

definition read_bytes :: "memory \<Rightarrow> ptr \<Rightarrow> nat \<Rightarrow> uint8_t list" where
  "read_bytes m a n = map (\<lambda>i. m (a + i)) [0..<n]"

text \<open>
  Reading a \<^verbatim>\<open>uint16_t\<close> object from memory and the bytes such an object occupies, in
  the byte order of the host.
\<close>

definition load_u16 :: "config \<Rightarrow> memory \<Rightarrow> ptr \<Rightarrow> uint16_t" where
  "load_u16 K m a =
     (if big_endian K then push_bit 8 (ucast (m a)) OR ucast (m (a + 1))
      else push_bit 8 (ucast (m (a + 1))) OR ucast (m a))"

definition bytes_u16 :: "config \<Rightarrow> uint16_t \<Rightarrow> uint8_t list" where
  "bytes_u16 K v =
     (if big_endian K then [ucast (drop_bit 8 v), ucast v]
      else [ucast v, ucast (drop_bit 8 v)])"

definition udp_src_port :: "config \<Rightarrow> memory \<Rightarrow> ptr \<Rightarrow> uint16_t" where
  "udp_src_port K m hdr = load_u16 K m hdr"

definition udp_dst_port :: "config \<Rightarrow> memory \<Rightarrow> ptr \<Rightarrow> uint16_t" where
  "udp_dst_port K m hdr = load_u16 K m (hdr + 2)"

definition ipv6_hdr_src :: "memory \<Rightarrow> ptr \<Rightarrow> uint8_t list" where
  "ipv6_hdr_src m hdr = read_bytes m (hdr + 8) sizeof_ipv6_addr_t"

definition ipv6_hdr_dst :: "memory \<Rightarrow> ptr \<Rightarrow> uint8_t list" where
  "ipv6_hdr_dst m hdr = read_bytes m (hdr + 24) sizeof_ipv6_addr_t"

text \<open>\<^verbatim>\<open>get_udp_header\<close>.\<close>

definition get_udp_header :: "chain \<Rightarrow> ptr" where
  "get_udp_header p =
     (case gnrc_pktsnip_search_type p GNRC_NETTYPE_UDP of
        [] \<Rightarrow> NULL
      | udp # _ \<Rightarrow> data udp)"

subsection \<open>Receive path\<close>

text \<open>
  \<^verbatim>\<open>memcpy\<close> of \<open>n\<close> bytes into an array: the first \<open>n\<close> cells are overwritten. When
  \<open>n\<close> exceeds the array, the result is longer than the array was: the excess is what
  would have been written behind it.
\<close>

definition memcpy :: "uint8_t list \<Rightarrow> uint8_t list \<Rightarrow> nat \<Rightarrow> uint8_t list" where
  "memcpy dest source n = take n source @ drop n dest"

text \<open>The union after \<^verbatim>\<open>memset(&a.addr, 0, sizeof(a.addr))\<close>.\<close>

definition zero_sockaddr :: sockaddr_u where
  "zero_sockaddr = \<lparr> sa_family = 0, sin_port = 0, sin_addr = replicate 4 0, sin6_port = 0,
     sin6_flowinfo = 0, sin6_addr = replicate 16 0, sin6_scope_id = 0 \<rparr>"

text \<open>
  The population of one address of the packet record: size, zeroed union, family,
  address bytes and port, in the order of the source.
\<close>

definition fill_sin6 :: "config \<Rightarrow> uint8_t list \<Rightarrow> uint16_t \<Rightarrow> coap_address_t" where
  "fill_sin6 K a6 port =
     \<lparr> size_f = sizeof_sockaddr_in6 K,
       addr = zero_sockaddr \<lparr> sa_family := AF_INET6 K,
                              sin6_addr := memcpy (sin6_addr zero_sockaddr) a6 sizeof_ipv6_addr_t,
                              sin6_port := port \<rparr> \<rparr>"

text \<open>
  \<^verbatim>\<open>coap_network_read\<close>. The result is the returned \<^verbatim>\<open>ssize_t\<close>, the socket and the
  packet record as the call leaves them.
\<close>

definition coap_network_read ::
  "config \<Rightarrow> memory \<Rightarrow> coap_socket_t \<Rightarrow> coap_packet_t
     \<Rightarrow> ssize_t \<times> coap_socket_t \<times> coap_packet_t" where
  "coap_network_read K m sock packet =
     (if flags sock AND COAP_SOCKET_CAN_READ K = 0 then
        (- 1, sock, packet)
      else
        let sock1 = sock \<lparr> flags := flags sock AND NOT (COAP_SOCKET_CAN_READ K) \<rparr>;
            udp = gnrc_pktsnip_search_type (pkt sock1) GNRC_NETTYPE_UDP;
            ipv6_hdr = gnrc_ipv6_get_header m (pkt sock1)
        in
          if ipv6_hdr = NULL \<or> udp = [] \<or> data (hd udp) = NULL then
            (- EFAULT K, sock1, packet)
          else
            let udp_hdr = data (hd udp);
                len0 = gnrc_pkt_len_upto (pkt sock1) GNRC_NETTYPE_UDP
                         - of_nat sizeof_udp_hdr_t;
                len = (if len0 > COAP_RXBUFFER_SIZE K then COAP_RXBUFFER_SIZE K else len0);
                packet1 = packet \<lparr>
                  ifindex := fd sock1,
                  src := fill_sin6 K (ipv6_hdr_src m ipv6_hdr) (udp_src_port K m udp_hdr),
                  dst := fill_sin6 K (ipv6_hdr_dst m ipv6_hdr) (udp_dst_port K m udp_hdr),
                  length_f := (if len > 0 then len else 0),
                  payload := memcpy (payload packet)
                               (read_bytes m (udp_hdr + sizeof_udp_hdr_t) (unat len))
                               (unat len) \<rparr>
            in (len, sock1, packet1))"

subsection \<open>Event loop\<close>

text \<open>
  An endpoint owns its socket; \<open>sock\<close> is the address of that socket object. The
  sockets gathered by \<^verbatim>\<open>coap_write\<close> are addresses of socket objects too, so the same
  object can be reached from an endpoint and from the gathered array. \<open>sockheap\<close> maps
  the address of a socket object to its contents.
\<close>

record coap_endpoint_t =
  bind_addr :: coap_address_t
  sock :: ptr

record msg_t =
  type_msg :: uint16_t
  content_ptr :: chain

text \<open>
  What one call of \<^verbatim>\<open>coap_run_once\<close> can see and change: the monotonic tick counter
  read by \<^verbatim>\<open>coap_ticks\<close>, the socket objects, byte memory, and the endpoint list of
  the context (\<^verbatim>\<open>ctx->endpoint\<close>, in list order).
\<close>

record world =
  clock :: coap_tick_t
  sockheap :: "ptr \<Rightarrow> coap_socket_t"
  mem :: memory
  endpoint :: "coap_endpoint_t list"

text \<open>
  The functions the loop calls outside this file. \<^verbatim>\<open>coap_write\<close> gets the capacity of
  the socket array and the current tick and yields the timeout it asks for and the
  gathered sockets (\<^verbatim>\<open>num_sockets\<close> is the length of that list);
  \<^verbatim>\<open>xtimer_msg_receive_timeout\<close> gets the timeout in microseconds and yields the
  message it stored; \<^verbatim>\<open>coap_read\<close> gets the current tick. Each may change the world,
  the clock included.
\<close>

record env =
  coap_write :: "nat \<Rightarrow> coap_tick_t \<Rightarrow> world \<Rightarrow> uint32_t \<times> ptr list \<times> world"
  xtimer_msg_receive_timeout :: "uint32_t \<Rightarrow> world \<Rightarrow> msg_t \<times> world"
  coap_read :: "coap_tick_t \<Rightarrow> world \<Rightarrow> world"

text \<open>The calls \<^verbatim>\<open>coap_run_once\<close> makes, with their arguments, in the order made.\<close>

datatype call =
    Call_coap_ticks coap_tick_t
  | Call_coap_write coap_tick_t
  | Call_gnrc_netreg_register gnrc_nettype_t
  | Call_xtimer_msg_receive_timeout uint32_t
  | Call_coap_read coap_tick_t
  | Call_gnrc_netreg_unregister gnrc_nettype_t

text \<open>
  The inner \<^verbatim>\<open>for\<close> loop over the gathered sockets for one endpoint: the first socket
  with the endpoint's descriptor and \<^verbatim>\<open>WANT_READ\<close> is marked and the loop is left.
\<close>

fun for_sockets ::
  "config \<Rightarrow> ptr \<Rightarrow> chain \<Rightarrow> ptr list \<Rightarrow> (ptr \<Rightarrow> coap_socket_t) \<Rightarrow> (ptr \<Rightarrow> coap_socket_t)" where
  "for_sockets K ep_sock content [] h = h"
| "for_sockets K ep_sock content (s # rest) h =
     (if fd (h ep_sock) = fd (h s) \<and> flags (h s) AND COAP_SOCKET_WANT_READ K \<noteq> 0 then
        h (s := (h s) \<lparr> flags := flags (h s) OR COAP_SOCKET_CAN_READ K, pkt := content \<rparr>)
      else for_sockets K ep_sock content rest h)"

text \<open>The test and the body of \<^verbatim>\<open>LL_FOREACH(ctx->endpoint, ep)\<close> for one endpoint.\<close>

definition port_match :: "config \<Rightarrow> memory \<Rightarrow> ptr \<Rightarrow> coap_endpoint_t \<Rightarrow> bool" where
  "port_match K m udp_hdr ep = (get_port K (Some (bind_addr ep)) = udp_dst_port K m udp_hdr)"

definition foreach_body ::
  "config \<Rightarrow> memory \<Rightarrow> ptr \<Rightarrow> chain \<Rightarrow> ptr list \<Rightarrow> coap_endpoint_t
     \<Rightarrow> (ptr \<Rightarrow> coap_socket_t) \<Rightarrow> (ptr \<Rightarrow> coap_socket_t)" where
  "foreach_body K m udp_hdr content sockets ep h =
     (if port_match K m udp_hdr ep then for_sockets K (sock ep) content sockets h else h)"

fun ll_foreach ::
  "config \<Rightarrow> memory \<Rightarrow> ptr \<Rightarrow> chain \<Rightarrow> ptr list \<Rightarrow> coap_endpoint_t list
     \<Rightarrow> (ptr \<Rightarrow> coap_socket_t) \<Rightarrow> (ptr \<Rightarrow> coap_socket_t)" where
  "ll_foreach K m udp_hdr content sockets [] h = h"
| "ll_foreach K m udp_hdr content sockets (ep # eps) h =
     ll_foreach K m udp_hdr content sockets eps (foreach_body K m udp_hdr content sockets ep h)"

text \<open>The \<^verbatim>\<open>switch (msg.type)\<close>.\<close>

definition dispatch_msg :: "config \<Rightarrow> msg_t \<Rightarrow> ptr list \<Rightarrow> world \<Rightarrow> world" where
  "dispatch_msg K msg sockets w =
     (if type_msg msg = GNRC_NETAPI_MSG_TYPE_RCV K then
        (let udp_hdr = get_udp_header (content_ptr msg) in
           if udp_hdr = NULL then w
           else w \<lparr> sockheap :=
                  ll_foreach K (mem w) udp_hdr (content_ptr msg) sockets (endpoint w) (sockheap w) \<rparr>)
      else if type_msg msg = GNRC_NETAPI_MSG_TYPE_SND K then w
      else if type_msg msg = GNRC_NETAPI_MSG_TYPE_SET K
              \<or> type_msg msg = GNRC_NETAPI_MSG_TYPE_GET K then w
      else w)"

text \<open>
  \<^verbatim>\<open>coap_run_once\<close>. The result is the returned \<^verbatim>\<open>int\<close>, the calls made and the
  world the call leaves; \<open>before0\<close> is the local \<^verbatim>\<open>before\<close>. The local
  \<^verbatim>\<open>timeout\<close> is assigned three times (\<open>timeout0\<close>,
  \<open>timeout1\<close>, \<open>timeout2\<close>) and read by nothing but its own reassignment. The division
  is the unsigned 64-bit one; the cast to \<^verbatim>\<open>int\<close> keeps the low 32 bits.
\<close>

definition coap_run_once ::
  "config \<Rightarrow> env \<Rightarrow> uint32_t \<Rightarrow> world \<Rightarrow> int_t \<times> call list \<times> world" where
  "coap_run_once K E timeout_ms w0 =
     (let before0 = clock w0;
          (timeout0, sockets, w1) = coap_write E (LIBCOAP_MAX_SOCKETS K) before0 w0;
          num_sockets = length sockets;
          timeout1 = (if timeout0 = 0 \<or> timeout_ms < timeout0 then timeout_ms else timeout0);
          reg = (if num_sockets > 0 then [Call_gnrc_netreg_register GNRC_NETTYPE_UDP] else []);
          timeout2 = (if timeout1 = 0 \<or> timeout_ms < timeout1 then timeout_ms else timeout1);
          (msg, w2) = xtimer_msg_receive_timeout E (timeout_ms * US_PER_SEC K) w1;
          w3 = dispatch_msg K msg sockets w2;
          now = clock w3;
          w4 = coap_read E now w3
      in (ucast (((now - before0) * 1000) div COAP_TICKS_PER_SECOND K),
          [Call_coap_ticks before0, Call_coap_write before0] @ reg @
          [Call_xtimer_msg_receive_timeout (timeout_ms * US_PER_SEC K),
           Call_coap_ticks now, Call_coap_read now,
           Call_gnrc_netreg_unregister GNRC_NETTYPE_UDP],
          w4))"

subsection \<open>Concrete inputs\<close>

text \<open>
  A datagram as the stack delivers it: payload snip first, then the UDP header, then the
  IPv6 header. In memory from address 100: forty bytes of IPv6 header (version 6, source
  fe80::1, destination fe80::2), eight bytes of UDP header (source port 49153,
  destination port 5683, on the wire \<open>0x16 0x33\<close>), and the payload \<open>hello\<close>.
\<close>

definition mem_of :: "ptr \<Rightarrow> uint8_t list \<Rightarrow> memory" where
  "mem_of base bs = (\<lambda>a. if base \<le> a \<and> a < base + length bs then bs ! (a - base) else 0)"

definition hello_bytes :: "uint8_t list" where
  "hello_bytes = [0x68, 0x65, 0x6C, 0x6C, 0x6F]"

definition datagram_bytes :: "uint8_t list" where
  "datagram_bytes =
     [0x60, 0, 0, 0, 0, 13, 17, 64] @
     [0xFE, 0x80, 0, 0, 0, 0, 0, 0, 0, 0, 0, 0, 0, 0, 0, 1] @
     [0xFE, 0x80, 0, 0, 0, 0, 0, 0, 0, 0, 0, 0, 0, 0, 0, 2] @
     [0xC0, 0x01, 0x16, 0x33, 0, 13, 0, 0] @
     hello_bytes"

definition datagram_mem :: memory where
  "datagram_mem = mem_of 100 datagram_bytes"

definition datagram_chain :: chain where
  "datagram_chain =
     [\<lparr> data = 148, size_snip = 5, type_snip = GNRC_NETTYPE_UNDEF \<rparr>,
      \<lparr> data = 140, size_snip = 8, type_snip = GNRC_NETTYPE_UDP \<rparr>,
      \<lparr> data = 100, size_snip = 40, type_snip = GNRC_NETTYPE_IPV6 \<rparr>]"

text \<open>The same datagram with the IPv6 snip missing from the chain.\<close>

definition headless_chain :: chain where
  "headless_chain =
     [\<lparr> data = 148, size_snip = 5, type_snip = GNRC_NETTYPE_UNDEF \<rparr>,
      \<lparr> data = 140, size_snip = 8, type_snip = GNRC_NETTYPE_UDP \<rparr>]"

text \<open>A chain whose payload snip claims 2000 bytes, more than the receive buffer holds.\<close>

definition oversized_chain :: chain where
  "oversized_chain =
     [\<lparr> data = 148, size_snip = 2000, type_snip = GNRC_NETTYPE_UNDEF \<rparr>,
      \<lparr> data = 140, size_snip = 8, type_snip = GNRC_NETTYPE_UDP \<rparr>,
      \<lparr> data = 100, size_snip = 40, type_snip = GNRC_NETTYPE_IPV6 \<rparr>]"

definition socket_of :: "int_t \<Rightarrow> uint16_t \<Rightarrow> chain \<Rightarrow> coap_socket_t" where
  "socket_of f fl p = \<lparr> fd = f, flags = fl, pkt = p \<rparr>"

definition blank_packet :: coap_packet_t where
  "blank_packet =
     \<lparr> src = \<lparr> size_f = 0, addr = zero_sockaddr \<rparr>,
       dst = \<lparr> size_f = 0, addr = zero_sockaddr \<rparr>,
       ifindex = 0, length_f = 0, payload = replicate 1472 0xAA \<rparr>"

text \<open>
  An IPv6 bind address with the given port field. On the little-endian host of
  \<open>riot_config\<close>, port 5683 is the field value \<open>0x3316\<close> and port 5684 is \<open>0x3416\<close>.
\<close>

definition bind6 :: "uint16_t \<Rightarrow> coap_address_t" where
  "bind6 p = \<lparr> size_f = 28, addr = zero_sockaddr \<lparr> sa_family := 4, sin6_port := p \<rparr> \<rparr>"

text \<open>
  Socket objects at addresses 1 and 2 (descriptors 3 and 4) with the given flags; every
  other address holds an unused socket with descriptor \<open>-1\<close>.
\<close>

definition two_sockets :: "uint16_t \<Rightarrow> uint16_t \<Rightarrow> ptr \<Rightarrow> coap_socket_t" where
  "two_sockets fl1 fl2 =
     (\<lambda>a. if a = 1 then socket_of 3 fl1 []
          else if a = 2 then socket_of 4 fl2 []
          else socket_of (- 1) 0 [])"

text \<open>
  Endpoints: \<open>ep_a\<close> and \<open>ep_b\<close> are bound to port 5683 and own the sockets at
  addresses 1 and 2; \<open>ep_c\<close> is bound to port 5684 and owns the socket at address 2.
\<close>

definition ep_a :: coap_endpoint_t where
  "ep_a = \<lparr> bind_addr = bind6 0x3316, sock = 1 \<rparr>"

definition ep_b :: coap_endpoint_t where
  "ep_b = \<lparr> bind_addr = bind6 0x3316, sock = 2 \<rparr>"

definition ep_c :: coap_endpoint_t where
  "ep_c = \<lparr> bind_addr = bind6 0x3416, sock = 2 \<rparr>"

definition world_of :: "(ptr \<Rightarrow> coap_socket_t) \<Rightarrow> coap_endpoint_t list \<Rightarrow> world" where
  "world_of h eps = \<lparr> clock = 7000, sockheap = h, mem = datagram_mem, endpoint = eps \<rparr>"

text \<open>
  An environment: \<^verbatim>\<open>coap_write\<close> asks for timeout \<open>t\<close> and gathers \<open>gathered\<close>, the
  wait delivers \<open>msg\<close> after \<open>waited\<close> ticks, \<^verbatim>\<open>coap_read\<close> takes \<open>spent\<close> ticks.
\<close>

definition env_of :: "uint32_t \<Rightarrow> ptr list \<Rightarrow> msg_t \<Rightarrow> coap_tick_t \<Rightarrow> coap_tick_t \<Rightarrow> env" where
  "env_of t gathered msg waited spent =
     \<lparr> coap_write = (\<lambda>max_sockets now w. (t, take max_sockets gathered, w)),
       xtimer_msg_receive_timeout = (\<lambda>us w. (msg, w \<lparr> clock := clock w + waited \<rparr>)),
       coap_read = (\<lambda>now w. w \<lparr> clock := clock w + spent \<rparr>) \<rparr>"

definition rcv_msg :: msg_t where
  "rcv_msg = \<lparr> type_msg = 0x0201, content_ptr = datagram_chain \<rparr>"

text \<open>The message left by a wait that timed out: no network type, no content.\<close>

definition timeout_msg :: msg_t where
  "timeout_msg = \<lparr> type_msg = 0, content_ptr = [] \<rparr>"

text \<open>
  A network in which \<^verbatim>\<open>coap_debug_send_packet\<close> returns \<open>dbg\<close> and both send calls
  return \<open>r\<close>; a session whose peer is fe80::0 port 5683.
\<close>

definition net_of :: "int_t \<Rightarrow> ssize_t \<Rightarrow> net_sys" where
  "net_of dbg r =
     \<lparr> coap_debug_send_packet = dbg,
       sys_send = (\<lambda>f b n fl. r),
       sys_sendto = (\<lambda>f b n fl a sz. r) \<rparr>"

definition peer_session :: coap_session_t where
  "peer_session = \<lparr> remote_addr = bind6 0x3316 \<rparr>"

text \<open>The configuration with a receive buffer of four bytes, and a packet record for it.\<close>

definition small_config :: config where
  "small_config = riot_config \<lparr> COAP_RXBUFFER_SIZE := 4 \<rparr>"

definition small_packet :: coap_packet_t where
  "small_packet = blank_packet \<lparr> payload := [0xAA, 0xAA, 0xAA, 0xAA] \<rparr>"

subsection \<open>Notions used to state the properties\<close>

text \<open>
  A chain is well formed for the receive path when the IPv6 header and the UDP snip with
  its header are found and the length up to the UDP snip covers the UDP header; its
  payload length is what remains after that header.
\<close>

definition well_formed_chain :: "memory \<Rightarrow> chain \<Rightarrow> bool" where
  "well_formed_chain m p =
     (gnrc_ipv6_get_header m p \<noteq> NULL \<and>
      gnrc_pktsnip_search_type p GNRC_NETTYPE_UDP \<noteq> [] \<and>
      get_udp_header p \<noteq> NULL \<and>
      sizeof_udp_hdr_t \<le> unat (gnrc_pkt_len_upto p GNRC_NETTYPE_UDP))"

definition payload_length :: "chain \<Rightarrow> nat" where
  "payload_length p = unat (gnrc_pkt_len_upto p GNRC_NETTYPE_UDP) - sizeof_udp_hdr_t"

text \<open>A socket after the demultiplexer has marked it for the chain \<open>content\<close>.\<close>

definition woken :: "config \<Rightarrow> chain \<Rightarrow> coap_socket_t \<Rightarrow> coap_socket_t" where
  "woken K content s = s \<lparr> flags := flags s OR COAP_SOCKET_CAN_READ K, pkt := content \<rparr>"

text \<open>The test of the inner loop: same descriptor as the endpoint's socket, and \<^verbatim>\<open>WANT_READ\<close>.\<close>

definition wanted :: "config \<Rightarrow> (ptr \<Rightarrow> coap_socket_t) \<Rightarrow> ptr \<Rightarrow> ptr \<Rightarrow> bool" where
  "wanted K h ep_sock s =
     (fd (h ep_sock) = fd (h s) \<and> flags (h s) AND COAP_SOCKET_WANT_READ K \<noteq> 0)"

section \<open>Properties\<close>

subsection \<open>Word arithmetic and byte order\<close>

lemma sint_small: "unat (x::32 word) < 2 ^ 31 \<Longrightarrow> sint x = int (unat x)"
proof -
  assume a: "unat x < 2 ^ 31"
  have "int (unat x) < int (2 ^ 31)" using a by (rule iffD2 [OF of_nat_less_iff])
  then have hi: "uint x < 2 ^ 31" by simp
  have lo: "- (2 ^ 31) \<le> uint x" by (rule order_trans [of _ 0]) simp_all
  have "signed_take_bit 31 (uint x) = uint x"
    using lo hi by (rule signed_take_bit_int_eq_self)
  then show ?thesis by (simp add: sint_uint)
qed

lemma sint_neg: "0 < sint (x::32 word) \<Longrightarrow> sint (- x) < 0"
proof -
  assume a: "0 < sint x"
  have "sint x < 2 ^ (LENGTH(32) - 1)" by (rule sint_lt)
  then have b: "sint x < 2 ^ 31" by simp
  have lo: "- (2 ^ 31) \<le> - sint x" using b by simp
  have hi: "- sint x < 2 ^ 31" using a by simp
  have "sint (- x) = signed_take_bit 31 (- sint x)"
    by (simp add: sint_word_ariths)
  also have "\<dots> = - sint x"
    using lo hi by (rule signed_take_bit_int_eq_self)
  finally show ?thesis using a by simp
qed

lemma and_not_self: "(f AND NOT c) AND c = (0::16 word)"
  by (simp add: bit_eq_iff bit_simps)

lemma u16_join:
  "push_bit 8 (ucast (ucast (drop_bit 8 v) :: 8 word)) OR ucast (ucast v :: 8 word) = (v :: 16 word)"
  by (rule bit_word_eqI) (auto simp add: bit_simps)

lemma u16_hi:
  "(ucast (drop_bit 8 (push_bit 8 (ucast (a :: 8 word)) OR ucast (b :: 8 word) :: 16 word)) :: 8 word) = a"
  by (rule bit_word_eqI) (auto simp add: bit_simps dest: bit_imp_le_length)

lemma u16_lo:
  "(ucast (push_bit 8 (ucast (a :: 8 word)) OR ucast (b :: 8 word) :: 16 word) :: 8 word) = b"
  by (rule bit_word_eqI) (auto simp add: bit_simps)

lemma read_bytes_2: "read_bytes m a 2 = [m a, m (a + 1)]"
  by (simp add: read_bytes_def upt_rec numeral_2_eq_2)

lemma bytes_of_load: "bytes_u16 K (load_u16 K m a) = read_bytes m a 2"
proof (cases "big_endian K")
  case True
  then show ?thesis
    by (simp only: load_u16_def bytes_u16_def read_bytes_2 if_True u16_hi u16_lo)
next
  case False
  then show ?thesis
    by (simp only: load_u16_def bytes_u16_def read_bytes_2 if_False u16_hi u16_lo)
qed

lemma load_of_bytes:
  assumes "bytes_u16 K v = read_bytes m a 2"
  shows "v = load_u16 K m a"
proof -
  have j: "v = push_bit 8 (ucast (ucast (drop_bit 8 v) :: 8 word)) OR ucast (ucast v :: 8 word)"
    by (rule u16_join [symmetric])
  show ?thesis
  proof (cases "big_endian K")
    case True
    with assms have "ucast (drop_bit 8 v) = m a" and "ucast v = m (a + 1)"
      by (simp_all only: bytes_u16_def read_bytes_2 if_True list.inject)
    with j True show ?thesis by (simp only: load_u16_def if_True)
  next
    case False
    with assms have "ucast v = m a" and "ucast (drop_bit 8 v) = m (a + 1)"
      by (simp_all only: bytes_u16_def read_bytes_2 if_False list.inject)
    with j False show ?thesis by (simp only: load_u16_def if_False)
  qed
qed

lemma load_eq_bytes: "(v = load_u16 K m a) = (bytes_u16 K v = read_bytes m a 2)"
  using bytes_of_load load_of_bytes by blast

subsection \<open>Send path\<close>

text \<open>
  Claim C7. A send request with a buffer of length \<open>L\<close>: when
  \<^verbatim>\<open>coap_debug_send_packet\<close> reports suppression (returns 0) the result is \<open>L\<close> and no
  network call is made; otherwise a socket with \<^verbatim>\<open>CONNECTED\<close> makes exactly one
  \<^verbatim>\<open>send\<close> of the buffer, without the peer address, and any other socket makes exactly
  one \<^verbatim>\<open>sendto\<close> to the session's remote address and size. In both cases the result
  is whatever the underlying call returned, negative or not, and there is never more than
  one call. (The cast of \<open>L\<close> to \<^verbatim>\<open>ssize_t\<close> keeps the bits; read as a signed number it
  is \<open>L\<close> for every length below \<open>2^31\<close>.)
\<close>

theorem C7_send_path:
  "(coap_debug_send_packet N = 0 \<longrightarrow>
      coap_network_send K N sk session buf datalen = (datalen, []) \<and>
      (unat datalen < 2 ^ 31 \<longrightarrow>
         sint (fst (coap_network_send K N sk session buf datalen)) = int (unat datalen))) \<and>
   (coap_debug_send_packet N \<noteq> 0 \<and> flags sk AND COAP_SOCKET_CONNECTED K \<noteq> 0 \<longrightarrow>
      coap_network_send K N sk session buf datalen =
        (sys_send N (fd sk) buf datalen 0, [Call_send (fd sk) buf datalen 0])) \<and>
   (coap_debug_send_packet N \<noteq> 0 \<and> flags sk AND COAP_SOCKET_CONNECTED K = 0 \<longrightarrow>
      coap_network_send K N sk session buf datalen =
        (sys_sendto N (fd sk) buf datalen 0
           (addr (remote_addr session)) (size_f (remote_addr session)),
         [Call_sendto (fd sk) buf datalen 0
           (addr (remote_addr session)) (size_f (remote_addr session))])) \<and>
   length (snd (coap_network_send K N sk session buf datalen)) \<le> 1"
  by (simp add: coap_network_send_def sint_small)

text \<open>
  The three branches on concrete requests: suppressed; connected socket, five bytes
  sent; unconnected socket, the addressed send fails with \<open>-1\<close>.
\<close>

theorem C7_send_path_witness:
  "coap_network_send riot_config (net_of 0 (- 1)) (socket_of 3 0x0004 []) peer_session hello_bytes 5
     = (5, []) \<and>
   coap_network_send riot_config (net_of 1 5) (socket_of 3 0x0004 []) peer_session hello_bytes 5
     = (5, [Call_send 3 hello_bytes 5 0]) \<and>
   coap_network_send riot_config (net_of 1 (- 1)) (socket_of 3 0x0010 []) peer_session hello_bytes 5
     = (- 1, [Call_sendto 3 hello_bytes 5 0 (addr (bind6 0x3316)) 28])"
  using C7_send_path [where N = "net_of 0 (- 1)" and K = riot_config
      and sk = "socket_of 3 0x0004 []" and session = peer_session
      and buf = hello_bytes and datalen = 5]
    C7_send_path [where N = "net_of 1 5" and K = riot_config
      and sk = "socket_of 3 0x0004 []" and session = peer_session
      and buf = hello_bytes and datalen = 5]
    C7_send_path [where N = "net_of 1 (- 1)" and K = riot_config
      and sk = "socket_of 3 0x0010 []" and session = peer_session
      and buf = hello_bytes and datalen = 5]
  by (simp add: net_of_def riot_config_def socket_of_def peer_session_def bind6_def)

subsection \<open>Receive path\<close>

text \<open>
  Claim C6. Without \<^verbatim>\<open>CAN_READ\<close> the receive path returns \<open>-1\<close> and leaves the socket
  and the packet record as they were. With \<^verbatim>\<open>CAN_READ\<close> the socket it leaves is the
  given one with that flag cleared, whatever else the call did; a further call on that
  socket, with any memory and any packet record, again returns \<open>-1\<close> and changes
  nothing: one readiness signal serves one call.
\<close>

theorem C6_can_read_consumed_once:
  "(flags sk AND COAP_SOCKET_CAN_READ K = 0 \<longrightarrow>
      coap_network_read K m sk packet = (- 1, sk, packet) \<and>
      sint (fst (coap_network_read K m sk packet)) < 0) \<and>
   (flags sk AND COAP_SOCKET_CAN_READ K \<noteq> 0 \<longrightarrow>
      (let sk' = fst (snd (coap_network_read K m sk packet)) in
         sk' = sk \<lparr> flags := flags sk AND NOT (COAP_SOCKET_CAN_READ K) \<rparr> \<and>
         flags sk' AND COAP_SOCKET_CAN_READ K = 0 \<and>
         coap_network_read K m' sk' packet' = (- 1, sk', packet')))"
  by (simp add: coap_network_read_def Let_def and_not_self)

theorem C6_can_read_consumed_once_witness:
  "coap_network_read riot_config datagram_mem (socket_of 3 0x0010 datagram_chain) blank_packet
     = (- 1, socket_of 3 0x0010 datagram_chain, blank_packet) \<and>
   fst (snd (coap_network_read riot_config datagram_mem
               (socket_of 3 0x0110 datagram_chain) blank_packet))
     = socket_of 3 0x0010 datagram_chain \<and>
   coap_network_read riot_config datagram_mem (socket_of 3 0x0010 datagram_chain) small_packet
     = (- 1, socket_of 3 0x0010 datagram_chain, small_packet)"
proof -
  let ?unset = "socket_of 3 0x0010 datagram_chain"
  let ?set = "socket_of 3 0x0110 datagram_chain"
  let ?first = "coap_network_read riot_config datagram_mem ?set blank_packet"
  have a: "flags ?unset AND COAP_SOCKET_CAN_READ riot_config = 0"
    by (simp add: socket_of_def riot_config_def)
  have b: "flags ?set AND COAP_SOCKET_CAN_READ riot_config \<noteq> 0"
    by (simp add: socket_of_def riot_config_def)
  have c: "?set \<lparr> flags := flags ?set AND NOT (COAP_SOCKET_CAN_READ riot_config) \<rparr> = ?unset"
    by (simp add: socket_of_def riot_config_def)
  have 1: "coap_network_read riot_config datagram_mem ?unset blank_packet
             = (- 1, ?unset, blank_packet)"
    using C6_can_read_consumed_once [where sk = ?unset and K = riot_config
        and m = datagram_mem and packet = blank_packet] a
    by blast
  have k: "fst (snd ?first) = ?set \<lparr> flags := flags ?set AND NOT (COAP_SOCKET_CAN_READ riot_config) \<rparr>
        \<and> coap_network_read riot_config datagram_mem (fst (snd ?first)) small_packet
            = (- 1, fst (snd ?first), small_packet)"
    using C6_can_read_consumed_once [where sk = ?set and K = riot_config
        and m = datagram_mem and packet = blank_packet
        and m' = datagram_mem and packet' = small_packet] b
    by (simp only: Let_def) blast
  from k have e0: "fst (snd ?first)
                     = ?set \<lparr> flags := flags ?set AND NOT (COAP_SOCKET_CAN_READ riot_config) \<rparr>"
    by (rule conjunct1)
  from k have e2: "coap_network_read riot_config datagram_mem (fst (snd ?first)) small_packet
                     = (- 1, fst (snd ?first), small_packet)"
    by (rule conjunct2)
  from e0 c have e1: "fst (snd ?first) = ?unset"
    by (rule trans)
  from e2 have 2: "coap_network_read riot_config datagram_mem ?unset small_packet
                     = (- 1, ?unset, small_packet)"
    by (simp only: e1)
  from 1 e1 2 show ?thesis by blast
qed

text \<open>
  Claim C5. With \<^verbatim>\<open>CAN_READ\<close> set, a chain in which the IPv6 header is not found, or
  the UDP snip is not found, or the UDP snip has no data, makes the receive path return
  \<open>-EFAULT\<close>, a negative number since errno values are positive, and the packet record
  is returned exactly as it was given.
\<close>

theorem C5_malformed_chain_faults:
  assumes "flags sk AND COAP_SOCKET_CAN_READ K \<noteq> 0"
    and "gnrc_ipv6_get_header m (pkt sk) = NULL
         \<or> gnrc_pktsnip_search_type (pkt sk) GNRC_NETTYPE_UDP = []
         \<or> data (hd (gnrc_pktsnip_search_type (pkt sk) GNRC_NETTYPE_UDP)) = NULL"
    and "0 < sint (EFAULT K)"
  shows "coap_network_read K m sk packet =
           (- EFAULT K, sk \<lparr> flags := flags sk AND NOT (COAP_SOCKET_CAN_READ K) \<rparr>, packet)
         \<and> sint (fst (coap_network_read K m sk packet)) < 0
         \<and> snd (snd (coap_network_read K m sk packet)) = packet"
  using assms by (auto simp add: coap_network_read_def Let_def sint_neg)

theorem C5_malformed_chain_faults_witness:
  "coap_network_read riot_config datagram_mem (socket_of 3 0x0110 headless_chain) blank_packet
     = (- 14, socket_of 3 0x0010 headless_chain, blank_packet)"
proof -
  have a: "flags (socket_of 3 0x0110 headless_chain) AND COAP_SOCKET_CAN_READ riot_config \<noteq> 0"
    by (simp add: socket_of_def riot_config_def)
  have b: "gnrc_ipv6_get_header datagram_mem (pkt (socket_of 3 0x0110 headless_chain)) = NULL"
    by (simp add: socket_of_def gnrc_ipv6_get_header_def headless_chain_def)
  have c: "0 < sint (EFAULT riot_config)"
    by (simp add: riot_config_def)
  show ?thesis
    using C5_malformed_chain_faults [OF a disjI1 [OF b] c, of blank_packet]
    by (simp add: riot_config_def socket_of_def)
qed

subsection \<open>Port lookup and port comparison\<close>

text \<open>
  Claim C8. The port test of the demultiplexer holds exactly when the two bytes that the
  endpoint's port field occupies in host memory equal the two bytes of the destination
  port field of the UDP header as received, on a host of either byte order: both sides
  are compared as stored, in network byte order, and neither is converted. The body of
  the endpoint loop scans the sockets under exactly this test.
\<close>

theorem C8_ports_compared_on_wire:
  "port_match K m udp_hdr ep =
     (bytes_u16 K (get_port K (Some (bind_addr ep))) = read_bytes m (udp_hdr + 2) 2)
   \<and> foreach_body K m udp_hdr content sockets ep h =
     (if bytes_u16 K (get_port K (Some (bind_addr ep))) = read_bytes m (udp_hdr + 2) 2
      then for_sockets K (sock ep) content sockets h else h)"
  by (simp add: foreach_body_def port_match_def udp_dst_port_def load_eq_bytes)

text \<open>
  On a little-endian host the datagram for port 5683 (wire bytes \<open>0x16 0x33\<close>) matches
  the field value \<open>0x3316\<close> and not the host-order number \<open>0x1633\<close>.
\<close>

theorem C8_ports_compared_on_wire_witness:
  "port_match riot_config datagram_mem 140 \<lparr> bind_addr = bind6 0x3316, sock = 1 \<rparr>
   \<and> \<not> port_match riot_config datagram_mem 140 \<lparr> bind_addr = bind6 0x1633, sock = 1 \<rparr>"
  using C8_ports_compared_on_wire [where K = riot_config and m = datagram_mem and udp_hdr = 140
      and ep = "\<lparr> bind_addr = bind6 0x3316, sock = 1 \<rparr>"]
    C8_ports_compared_on_wire [where K = riot_config and m = datagram_mem and udp_hdr = 140
      and ep = "\<lparr> bind_addr = bind6 0x1633, sock = 1 \<rparr>"]
  by (simp add: riot_config_def bind6_def get_port_def zero_sockaddr_def bytes_u16_def
      read_bytes_2 datagram_mem_def mem_of_def datagram_bytes_def hello_bytes_def)


text \<open>
  Claim C10. \<^verbatim>\<open>get_port\<close> returns 0 for a null address and for an address whose family
  is neither \<^verbatim>\<open>AF_INET\<close> nor \<^verbatim>\<open>AF_INET6\<close>. An endpoint bound to such an address passes
  the port test exactly when the destination port field of the datagram is 0; for any
  other datagram the body of the endpoint loop leaves every socket as it was.
\<close>

theorem C10_unknown_family_port_zero:
  "get_port K None = 0 \<and>
   (sa_family (addr a) \<noteq> AF_INET K \<and> sa_family (addr a) \<noteq> AF_INET6 K \<longrightarrow>
      get_port K (Some a) = 0) \<and>
   (sa_family (addr (bind_addr ep)) \<noteq> AF_INET K
      \<and> sa_family (addr (bind_addr ep)) \<noteq> AF_INET6 K \<longrightarrow>
      port_match K m udp_hdr ep = (udp_dst_port K m udp_hdr = 0) \<and>
      (udp_dst_port K m udp_hdr \<noteq> 0 \<longrightarrow>
         foreach_body K m udp_hdr content sockets ep h = h))"
  by (auto simp add: get_port_def port_match_def foreach_body_def)

text \<open>An endpoint whose address has family 1, and the datagram for port 5683.\<close>

theorem C10_unknown_family_port_zero_witness:
  "get_port riot_config (Some (bind6 0x3316 \<lparr> addr := addr (bind6 0x3316) \<lparr> sa_family := 1 \<rparr> \<rparr>)) = 0
   \<and> foreach_body riot_config datagram_mem 140 datagram_chain [1, 2]
        \<lparr> bind_addr = bind6 0x3316 \<lparr> addr := addr (bind6 0x3316) \<lparr> sa_family := 1 \<rparr> \<rparr>, sock = 1 \<rparr>
        (two_sockets 0x10 0x10) = two_sockets 0x10 0x10"
  using C10_unknown_family_port_zero [where K = riot_config and m = datagram_mem
      and udp_hdr = 140
      and a = "bind6 0x3316 \<lparr> addr := addr (bind6 0x3316) \<lparr> sa_family := 1 \<rparr> \<rparr>"
      and ep = "\<lparr> bind_addr = bind6 0x3316 \<lparr> addr := addr (bind6 0x3316) \<lparr> sa_family := 1 \<rparr> \<rparr>,
                 sock = 1 \<rparr>"
      and content = datagram_chain and sockets = "[1, 2]" and h = "two_sockets 0x10 0x10"]
  by (simp add: riot_config_def bind6_def udp_dst_port_def load_u16_def
      datagram_mem_def mem_of_def datagram_bytes_def hello_bytes_def)

subsection \<open>Payload length and truncation\<close>

lemma length_read_bytes: "length (read_bytes m a n) = n"
  by (simp add: read_bytes_def)

lemma memcpy_whole:
  assumes "length source = n" and "n \<le> length dest"
  shows "length (memcpy dest source n) = length dest"
    and "take n (memcpy dest source n) = source"
    and "drop n (memcpy dest source n) = drop n dest"
  using assms by (simp_all add: memcpy_def)

lemma payload_length_word:
  assumes "sizeof_udp_hdr_t \<le> unat (gnrc_pkt_len_upto p GNRC_NETTYPE_UDP)"
  shows "unat (gnrc_pkt_len_upto p GNRC_NETTYPE_UDP - of_nat sizeof_udp_hdr_t) = payload_length p"
proof -
  have "(8 :: 32 word) \<le> gnrc_pkt_len_upto p GNRC_NETTYPE_UDP"
    using assms by (simp add: word_le_nat_alt sizeof_udp_hdr_t_def)
  then have "unat (gnrc_pkt_len_upto p GNRC_NETTYPE_UDP - 8) = unat (gnrc_pkt_len_upto p GNRC_NETTYPE_UDP) - unat (8 :: 32 word)"
    by (rule unat_sub)
  then show ?thesis
    by (simp add: payload_length_def sizeof_udp_hdr_t_def)
qed

lemma word_pos_or_zero: "(if (0::32 word) < x then x else 0) = x"
  by (simp add: word_gt_0)

lemma coap_network_read_ok:
  assumes can: "flags sk AND COAP_SOCKET_CAN_READ K \<noteq> 0"
    and wf: "well_formed_chain m (pkt sk)"
  shows "coap_network_read K m sk packet =
    (let len0 = gnrc_pkt_len_upto (pkt sk) GNRC_NETTYPE_UDP - of_nat sizeof_udp_hdr_t;
         len = (if len0 > COAP_RXBUFFER_SIZE K then COAP_RXBUFFER_SIZE K else len0)
     in (len, sk \<lparr> flags := flags sk AND NOT (COAP_SOCKET_CAN_READ K) \<rparr>,
         packet \<lparr> ifindex := fd sk,
           src := fill_sin6 K (ipv6_hdr_src m (gnrc_ipv6_get_header m (pkt sk)))
                    (udp_src_port K m (get_udp_header (pkt sk))),
           dst := fill_sin6 K (ipv6_hdr_dst m (gnrc_ipv6_get_header m (pkt sk)))
                    (udp_dst_port K m (get_udp_header (pkt sk))),
           length_f := len,
           payload := memcpy (payload packet)
                        (read_bytes m (get_udp_header (pkt sk) + sizeof_udp_hdr_t) (unat len))
                        (unat len) \<rparr>))"
proof -
  from wf obtain u rest where u: "gnrc_pktsnip_search_type (pkt sk) GNRC_NETTYPE_UDP = u # rest"
    by (auto simp add: well_formed_chain_def neq_Nil_conv)
  from wf u have d: "data u \<noteq> NULL" and g: "get_udp_header (pkt sk) = data u"
    by (simp_all add: well_formed_chain_def get_udp_header_def)
  from wf have i: "gnrc_ipv6_get_header m (pkt sk) \<noteq> NULL"
    by (simp add: well_formed_chain_def)
  show ?thesis
    using can u d g i by (simp add: coap_network_read_def Let_def word_pos_or_zero)
qed

text \<open>
  Claim C4. For a well-formed chain with payload length \<open>L\<close>, read with
  \<^verbatim>\<open>CAN_READ\<close> set into a packet record whose payload array has
  \<^verbatim>\<open>COAP_RXBUFFER_SIZE\<close> cells: when \<open>L\<close> fits, the record's length and the result
  are \<open>L\<close> and the first \<open>L\<close> payload cells are the \<open>L\<close> bytes that follow the UDP
  header in memory; when \<open>L\<close> is larger, length and result are
  \<^verbatim>\<open>COAP_RXBUFFER_SIZE\<close>. In both cases the payload array keeps its size and its cells
  from the record's length on are untouched: nothing is written behind the array.
\<close>

theorem C4_payload_length_and_truncation:
  assumes can: "flags sk AND COAP_SOCKET_CAN_READ K \<noteq> 0"
    and wf: "well_formed_chain m (pkt sk)"
    and cap: "length (payload packet) = unat (COAP_RXBUFFER_SIZE K)"
    and res: "coap_network_read K m sk packet = (r, sk', packet')"
  shows "(payload_length (pkt sk) \<le> unat (COAP_RXBUFFER_SIZE K) \<longrightarrow>
            unat (length_f packet') = payload_length (pkt sk) \<and>
            unat r = payload_length (pkt sk) \<and>
            take (payload_length (pkt sk)) (payload packet') =
              read_bytes m (get_udp_header (pkt sk) + sizeof_udp_hdr_t) (payload_length (pkt sk))) \<and>
         (unat (COAP_RXBUFFER_SIZE K) < payload_length (pkt sk) \<longrightarrow>
            length_f packet' = COAP_RXBUFFER_SIZE K \<and> r = COAP_RXBUFFER_SIZE K) \<and>
         length (payload packet') = unat (COAP_RXBUFFER_SIZE K) \<and>
         drop (unat (length_f packet')) (payload packet') =
           drop (unat (length_f packet')) (payload packet)"
proof -
  let ?raw = "gnrc_pkt_len_upto (pkt sk) GNRC_NETTYPE_UDP - of_nat sizeof_udp_hdr_t"
  let ?len = "if ?raw > COAP_RXBUFFER_SIZE K then COAP_RXBUFFER_SIZE K else ?raw"
  let ?src = "read_bytes m (get_udp_header (pkt sk) + sizeof_udp_hdr_t) (unat ?len)"
  from wf have "sizeof_udp_hdr_t \<le> unat (gnrc_pkt_len_upto (pkt sk) GNRC_NETTYPE_UDP)"
    by (simp add: well_formed_chain_def)
  then have L: "unat ?raw = payload_length (pkt sk)"
    by (rule payload_length_word)
  have r: "r = ?len" and lf: "length_f packet' = ?len"
    and pl: "payload packet' = memcpy (payload packet) ?src (unat ?len)"
    using res coap_network_read_ok [OF can wf, of packet]
    by (auto simp add: Let_def)
  have le: "unat ?len \<le> length (payload packet)"
    unfolding cap by (simp add: word_less_nat_alt word_le_nat_alt)
  have ls: "length ?src = unat ?len"
    by (rule length_read_bytes)
  note mc = memcpy_whole [OF ls le]
  have small: "payload_length (pkt sk) \<le> unat (COAP_RXBUFFER_SIZE K) \<Longrightarrow> unat ?len = payload_length (pkt sk)"
    using L by (simp add: word_less_nat_alt)
  have big: "unat (COAP_RXBUFFER_SIZE K) < payload_length (pkt sk) \<Longrightarrow> ?len = COAP_RXBUFFER_SIZE K"
    using L by (simp add: word_less_nat_alt)
  show ?thesis
  proof (intro conjI impI)
    assume a: "payload_length (pkt sk) \<le> unat (COAP_RXBUFFER_SIZE K)"
    show "unat (length_f packet') = payload_length (pkt sk)"
      unfolding lf using small [OF a] .
    show "unat r = payload_length (pkt sk)"
      unfolding r using small [OF a] .
    show "take (payload_length (pkt sk)) (payload packet') =
            read_bytes m (get_udp_header (pkt sk) + sizeof_udp_hdr_t) (payload_length (pkt sk))"
      using mc(2) unfolding pl small [OF a] .
  next
    assume a: "unat (COAP_RXBUFFER_SIZE K) < payload_length (pkt sk)"
    show "length_f packet' = COAP_RXBUFFER_SIZE K"
      unfolding lf using big [OF a] .
    show "r = COAP_RXBUFFER_SIZE K"
      unfolding r using big [OF a] .
  next
    show "length (payload packet') = unat (COAP_RXBUFFER_SIZE K)"
      unfolding pl using mc(1) cap by simp
    show "drop (unat (length_f packet')) (payload packet') =
            drop (unat (length_f packet')) (payload packet)"
      unfolding pl lf using mc(3) .
  qed
qed

text \<open>Facts about the concrete datagram.\<close>

lemma wf_datagram: "well_formed_chain datagram_mem datagram_chain"
  by (simp add: well_formed_chain_def gnrc_ipv6_get_header_def ipv6_hdr_is_def get_udp_header_def
      datagram_chain_def datagram_mem_def mem_of_def datagram_bytes_def hello_bytes_def
      NULL_def sizeof_udp_hdr_t_def)

lemma pl_datagram: "payload_length datagram_chain = 5"
  by (simp add: payload_length_def datagram_chain_def sizeof_udp_hdr_t_def)

lemma hdr_datagram: "get_udp_header datagram_chain = 140"
  by (simp add: get_udp_header_def datagram_chain_def)

lemma upt_5: "[0..<5] = [0, 1, 2, 3, 4::nat]"
  by code_simp

lemma rb_datagram: "read_bytes datagram_mem (140 + sizeof_udp_hdr_t) 5 = hello_bytes"
  by (simp add: read_bytes_def upt_5 sizeof_udp_hdr_t_def datagram_mem_def mem_of_def
      datagram_bytes_def hello_bytes_def)

text \<open>
  The datagram carrying \<open>hello\<close>, read with the usual buffer of 1472 bytes and with
  a buffer of four bytes.
\<close>

theorem C4_payload_length_and_truncation_witness:
  "unat (length_f (snd (snd (coap_network_read riot_config datagram_mem
            (socket_of 3 0x0110 datagram_chain) blank_packet)))) = 5 \<and>
   take 5 (payload (snd (snd (coap_network_read riot_config datagram_mem
            (socket_of 3 0x0110 datagram_chain) blank_packet)))) = hello_bytes \<and>
   length_f (snd (snd (coap_network_read small_config datagram_mem
            (socket_of 3 0x0110 datagram_chain) small_packet))) = 4 \<and>
   length (payload (snd (snd (coap_network_read small_config datagram_mem
            (socket_of 3 0x0110 datagram_chain) small_packet)))) = 4"
proof -
  let ?sk = "socket_of 3 0x0110 datagram_chain"
  let ?big = "coap_network_read riot_config datagram_mem ?sk blank_packet"
  let ?small = "coap_network_read small_config datagram_mem ?sk small_packet"
  have p: "pkt ?sk = datagram_chain" by (simp add: socket_of_def)
  have wf: "well_formed_chain datagram_mem (pkt ?sk)"
    unfolding p by (rule wf_datagram)
  have can1: "flags ?sk AND COAP_SOCKET_CAN_READ riot_config \<noteq> 0"
    by (simp add: socket_of_def riot_config_def)
  have can2: "flags ?sk AND COAP_SOCKET_CAN_READ small_config \<noteq> 0"
    by (simp add: socket_of_def small_config_def riot_config_def)
  have cap1: "length (payload blank_packet) = unat (COAP_RXBUFFER_SIZE riot_config)"
    by (simp add: blank_packet_def riot_config_def)
  have cap2: "length (payload small_packet) = unat (COAP_RXBUFFER_SIZE small_config)"
    by (simp add: small_packet_def small_config_def)
  have res1: "?big = (fst ?big, fst (snd ?big), snd (snd ?big))" by simp
  have res2: "?small = (fst ?small, fst (snd ?small), snd (snd ?small))" by simp
  have le: "payload_length (pkt ?sk) \<le> unat (COAP_RXBUFFER_SIZE riot_config)"
    unfolding p pl_datagram by (simp add: riot_config_def)
  have gt: "unat (COAP_RXBUFFER_SIZE small_config) < payload_length (pkt ?sk)"
    unfolding p pl_datagram by (simp add: small_config_def)
  from C4_payload_length_and_truncation [OF can1 wf cap1 res1] le
  have "unat (length_f (snd (snd ?big))) = payload_length (pkt ?sk)"
    and "take (payload_length (pkt ?sk)) (payload (snd (snd ?big))) =
           read_bytes datagram_mem (get_udp_header (pkt ?sk) + sizeof_udp_hdr_t) (payload_length (pkt ?sk))"
    by blast+
  then have a: "unat (length_f (snd (snd ?big))) = 5"
    and b: "take 5 (payload (snd (snd ?big))) = hello_bytes"
    unfolding p pl_datagram hdr_datagram rb_datagram .
  from C4_payload_length_and_truncation [OF can2 wf cap2 res2] gt
  have "length_f (snd (snd ?small)) = COAP_RXBUFFER_SIZE small_config"
    and "length (payload (snd (snd ?small))) = unat (COAP_RXBUFFER_SIZE small_config)"
    by blast+
  then have c: "length_f (snd (snd ?small)) = 4"
    and d: "length (payload (snd (snd ?small))) = 4"
    by (simp_all add: small_config_def)
  from a b c d show ?thesis by blast
qed

subsection \<open>Event loop\<close>

lemma clock_dispatch_msg: "clock (dispatch_msg K msg ss w) = clock w"
  by (simp add: dispatch_msg_def Let_def)

lemma coap_run_once_parts:
  assumes wr: "coap_write E (LIBCOAP_MAX_SOCKETS K) (clock w0) w0 = (t, ss, w1)"
    and rc: "xtimer_msg_receive_timeout E (T * US_PER_SEC K) w1 = (msg, w2)"
  shows "coap_run_once K E T w0 =
    (ucast (((clock w2 - clock w0) * 1000) div COAP_TICKS_PER_SECOND K),
     [Call_coap_ticks (clock w0), Call_coap_write (clock w0)] @
     (if ss \<noteq> [] then [Call_gnrc_netreg_register GNRC_NETTYPE_UDP] else []) @
     [Call_xtimer_msg_receive_timeout (T * US_PER_SEC K),
      Call_coap_ticks (clock w2), Call_coap_read (clock w2),
      Call_gnrc_netreg_unregister GNRC_NETTYPE_UDP],
     coap_read E (clock w2) (dispatch_msg K msg ss w2))"
  using wr rc by (simp add: coap_run_once_def Let_def clock_dispatch_msg)

lemma env_of_write: "coap_write (env_of t g msg wa sp) n now w = (t, take n g, w)"
  by (simp add: env_of_def)

lemma env_of_wait: "xtimer_msg_receive_timeout (env_of t g msg wa sp) us w = (msg, w \<lparr> clock := clock w + wa \<rparr>)"
  by (simp add: env_of_def)

lemma env_of_read: "coap_read (env_of t g msg wa sp) now w = w \<lparr> clock := clock w + sp \<rparr>"
  by (simp add: env_of_def)

text \<open>
  Claim C1. The claim bounds the wait by the smaller of the library's timeout and the
  caller's, in milliseconds. The code hands \<^verbatim>\<open>timeout_ms * US_PER_SEC\<close> to
  \<^verbatim>\<open>xtimer_msg_receive_timeout\<close>, which counts microseconds: the caller's value alone,
  taken as seconds. With a library timeout of 10 ms and a caller timeout of 1000 ms the
  wait is allowed \<open>1000000000\<close> microseconds, not the \<open>10000\<close> of 10 ms. The drive
  phase follows the wait, as claimed.
\<close>

theorem C1_wait_uses_caller_timeout_as_seconds:
  "fst (snd (coap_run_once riot_config (env_of 10 [] timeout_msg 0 0) 1000 (world_of (two_sockets 0 0) [])))
     = [Call_coap_ticks 7000, Call_coap_write 7000,
        Call_xtimer_msg_receive_timeout 1000000000,
        Call_coap_ticks 7000, Call_coap_read 7000,
        Call_gnrc_netreg_unregister GNRC_NETTYPE_UDP]
   \<and> fst (coap_write (env_of 10 [] timeout_msg 0 0) (LIBCOAP_MAX_SOCKETS riot_config) 7000
            (world_of (two_sockets 0 0) [])) = 10
   \<and> US_PER_SEC riot_config = 1000000"
  by (simp add: coap_run_once_parts [OF env_of_write env_of_wait] env_of_write world_of_def riot_config_def)

text \<open>
  Claim C3, as stated, fails: the second tick is sampled before \<^verbatim>\<open>coap_read\<close>, not
  after it. At 1000 ticks per second, with a drive phase that takes 5000 ticks, the call
  lasts 5000 ms and returns 0.
\<close>

theorem C3_elapsed_counterexample:
  "fst (coap_run_once riot_config (env_of 0 [] timeout_msg 0 5000) 0
          (world_of (two_sockets 0 0) [])) = 0
   \<and> clock (snd (snd (coap_run_once riot_config (env_of 0 [] timeout_msg 0 5000) 0
          (world_of (two_sockets 0 0) []))))
       - clock (world_of (two_sockets 0 0) []) = 5000
   \<and> COAP_TICKS_PER_SECOND riot_config = 1000
   \<and> fst (coap_run_once riot_config (env_of 0 [] timeout_msg 0 5000) 0
          (world_of (two_sockets 0 0) []))
       \<noteq> ucast (((clock (snd (snd (coap_run_once riot_config (env_of 0 [] timeout_msg 0 5000) 0
                    (world_of (two_sockets 0 0) []))))
                 - clock (world_of (two_sockets 0 0) [])) * 1000)
                div COAP_TICKS_PER_SECOND riot_config)"
  by (simp add: coap_run_once_parts [OF env_of_write env_of_wait] env_of_read world_of_def
      riot_config_def clock_dispatch_msg)

text \<open>
  Claim C3, amended. The first call is \<^verbatim>\<open>coap_ticks\<close> at entry; the last three are
  \<^verbatim>\<open>coap_ticks\<close> yielding \<open>now\<close>, \<^verbatim>\<open>coap_read\<close> with that same \<open>now\<close>, and the
  deregistration. The result is \<open>(now - before) * 1000 / COAP_TICKS_PER_SECOND\<close> in
  unsigned 64-bit arithmetic, cut to \<^verbatim>\<open>int\<close>: the time up to the start of the drive
  phase, which is not included.
\<close>

theorem C3_elapsed_until_drive_phase:
  "\<exists>pre now.
     fst (snd (coap_run_once K E T w0)) =
       Call_coap_ticks (clock w0) # pre @
       [Call_coap_ticks now, Call_coap_read now, Call_gnrc_netreg_unregister GNRC_NETTYPE_UDP]
     \<and> fst (coap_run_once K E T w0) =
       ucast (((now - clock w0) * 1000) div COAP_TICKS_PER_SECOND K)"
proof -
  obtain t ss w1 where wr: "coap_write E (LIBCOAP_MAX_SOCKETS K) (clock w0) w0 = (t, ss, w1)"
    by (cases "coap_write E (LIBCOAP_MAX_SOCKETS K) (clock w0) w0") auto
  obtain msg w2 where rc: "xtimer_msg_receive_timeout E (T * US_PER_SEC K) w1 = (msg, w2)"
    by (cases "xtimer_msg_receive_timeout E (T * US_PER_SEC K) w1") auto
  let ?pre = "Call_coap_write (clock w0) #
     (if ss \<noteq> [] then [Call_gnrc_netreg_register GNRC_NETTYPE_UDP] else []) @
     [Call_xtimer_msg_receive_timeout (T * US_PER_SEC K)]"
  have "fst (snd (coap_run_once K E T w0)) =
       Call_coap_ticks (clock w0) # ?pre @
       [Call_coap_ticks (clock w2), Call_coap_read (clock w2), Call_gnrc_netreg_unregister GNRC_NETTYPE_UDP]
     \<and> fst (coap_run_once K E T w0) =
       ucast (((clock w2 - clock w0) * 1000) div COAP_TICKS_PER_SECOND K)"
    by (simp add: coap_run_once_parts [OF wr rc])
  then show ?thesis by blast
qed

text \<open>A wait of 250 ticks and a drive phase of 5000 ticks: the result is 250.\<close>

lemma calls_slow:
  "fst (snd (coap_run_once riot_config (env_of 0 [] timeout_msg 250 5000) 300
       (world_of (two_sockets 0 0) [])))
     = [Call_coap_ticks 7000, Call_coap_write 7000,
        Call_xtimer_msg_receive_timeout 300000000,
        Call_coap_ticks 7250, Call_coap_read 7250,
        Call_gnrc_netreg_unregister GNRC_NETTYPE_UDP]"
  by (simp add: coap_run_once_parts [OF env_of_write env_of_wait] world_of_def riot_config_def)

theorem C3_elapsed_until_drive_phase_witness:
  "fst (coap_run_once riot_config (env_of 0 [] timeout_msg 250 5000) 300
       (world_of (two_sockets 0 0) [])) = 250"
proof -
  let ?w = "world_of (two_sockets 0 0) []"
  let ?run = "coap_run_once riot_config (env_of 0 [] timeout_msg 250 5000) 300 ?w"
  from C3_elapsed_until_drive_phase [of riot_config "env_of 0 [] timeout_msg 250 5000" 300 ?w]
  obtain pre now where
    e: "fst (snd ?run) = Call_coap_ticks (clock ?w) # pre @
          [Call_coap_ticks now, Call_coap_read now, Call_gnrc_netreg_unregister GNRC_NETTYPE_UDP]"
    and r: "fst ?run = ucast (((now - clock ?w) * 1000) div COAP_TICKS_PER_SECOND riot_config)"
    by blast
  from e have "rev (fst (snd ?run)) = rev (Call_coap_ticks (clock ?w) # pre @
          [Call_coap_ticks now, Call_coap_read now, Call_gnrc_netreg_unregister GNRC_NETTYPE_UDP])"
    by (rule arg_cong)
  then have "now = 7250"
    unfolding calls_slow by simp
  with r show ?thesis
    by (simp add: world_of_def riot_config_def)
qed




lemma for_sockets_find:
  "for_sockets K e c ss h =
     (case find (wanted K h e) ss of None \<Rightarrow> h | Some s \<Rightarrow> h (s := woken K c (h s)))"
  by (induction ss) (auto simp add: wanted_def woken_def fun_upd_def)

lemma woken_idem: "woken K c (woken K c x) = woken K c x"
  by (simp add: woken_def or.assoc)

lemma fd_woken: "fd (woken K c x) = fd x"
  by (simp add: woken_def)

lemma foreach_body_cases:
  "foreach_body K m u c ss ep h a = h a \<or>
   (foreach_body K m u c ss ep h a = woken K c (h a) \<and> a \<in> set ss \<and>
    port_match K m u ep \<and> fd (h (sock ep)) = fd (h a))"
proof (cases "port_match K m u ep")
  case False
  then show ?thesis by (simp add: foreach_body_def)
next
  case True
  show ?thesis
  proof (cases "find (wanted K h (sock ep)) ss")
    case None
    with True show ?thesis by (simp add: foreach_body_def for_sockets_find)
  next
    case (Some s)
    then have "wanted K h (sock ep) s" and "s \<in> set ss"
      by (auto simp add: find_Some_iff)
    with True Some show ?thesis
      by (simp add: foreach_body_def for_sockets_find wanted_def)
  qed
qed

lemma fd_foreach_body: "fd (foreach_body K m u c ss ep h a) = fd (h a)"
  using foreach_body_cases [of K m u c ss ep h a] by (auto simp add: fd_woken)

lemma ll_foreach_changed:
  "ll_foreach K m u c ss eps h a \<noteq> h a \<Longrightarrow>
     ll_foreach K m u c ss eps h a = woken K c (h a) \<and> a \<in> set ss \<and>
     (\<exists>ep \<in> set eps. port_match K m u ep \<and> fd (h (sock ep)) = fd (h a))"
proof (induction eps arbitrary: h)
  case Nil
  then show ?case by simp
next
  case (Cons ep eps)
  let ?h1 = "foreach_body K m u c ss ep h"
  let ?r = "ll_foreach K m u c ss eps ?h1"
  from Cons.prems have neq: "?r a \<noteq> h a" by simp
  have fds: "\<And>x. fd (?h1 x) = fd (h x)" by (rule fd_foreach_body)
  show ?case
  proof (cases "?r a = ?h1 a")
    case True
    with neq have "?h1 a \<noteq> h a" by simp
    with foreach_body_cases [of K m u c ss ep h a]
    have "?h1 a = woken K c (h a)" and "a \<in> set ss" and "port_match K m u ep"
      and "fd (h (sock ep)) = fd (h a)" by auto
    with True show ?thesis by simp
  next
    case False
    from Cons.IH [OF False] obtain ep' where
      r: "?r a = woken K c (?h1 a)" and a: "a \<in> set ss" and ep': "ep' \<in> set eps"
      and pm: "port_match K m u ep'" and f: "fd (?h1 (sock ep')) = fd (?h1 a)"
      by blast
    from foreach_body_cases [of K m u c ss ep h a]
    have "woken K c (?h1 a) = woken K c (h a)" by (auto simp add: woken_idem)
    with r have "?r a = woken K c (h a)" by simp
    moreover from f have "fd (h (sock ep')) = fd (h a)" by (simp only: fds)
    ultimately show ?thesis using a ep' pm by auto
  qed
qed

lemma dst_datagram: "udp_dst_port riot_config datagram_mem 140 = 0x3316"
  by (simp add: udp_dst_port_def load_u16_def riot_config_def datagram_mem_def mem_of_def
      datagram_bytes_def hello_bytes_def)

lemma get_port_bind6: "get_port riot_config (Some (bind6 p)) = p"
  by (simp add: get_port_def bind6_def riot_config_def zero_sockaddr_def)

lemma hdr_rcv: "get_udp_header (content_ptr rcv_msg) = 140"
  by (simp add: rcv_msg_def get_udp_header_def datagram_chain_def)

text \<open>
  Claim C2, as stated, fails: the \<^verbatim>\<open>break\<close> leaves the loop over the sockets, not
  the loop over the endpoints. With two endpoints bound to port 5683, each with its own
  gathered socket wanting to read, one notification for port 5683 marks both sockets.
\<close>

theorem C2_two_sockets_woken_counterexample:
  "flags (sockheap (snd (snd (coap_run_once riot_config (env_of 0 [1, 2] rcv_msg 0 0) 100
       (world_of (two_sockets 0x0010 0x0010) [ep_a, ep_b])))) 1) = 0x0110
   \<and> flags (sockheap (snd (snd (coap_run_once riot_config (env_of 0 [1, 2] rcv_msg 0 0) 100
       (world_of (two_sockets 0x0010 0x0010) [ep_a, ep_b])))) 2) = 0x0110
   \<and> flags (sockheap (world_of (two_sockets 0x0010 0x0010) [ep_a, ep_b]) 1) = 0x0010
   \<and> flags (sockheap (world_of (two_sockets 0x0010 0x0010) [ep_a, ep_b]) 2) = 0x0010"
  apply (simp add: coap_run_once_parts [OF env_of_write env_of_wait] env_of_read)
  apply (simp add: dispatch_msg_def Let_def hdr_rcv NULL_def world_of_def foreach_body_def port_match_def
     dst_datagram get_port_bind6 ep_a_def ep_b_def)
  apply (simp add: riot_config_def rcv_msg_def two_sockets_def socket_of_def)
  done

lemma or_keeps_and: "(x :: 16 word) AND w \<noteq> 0 \<Longrightarrow> (x OR c) AND w \<noteq> 0"
proof
  assume a: "x AND w \<noteq> 0" and b: "(x OR c) AND w = 0"
  have "(x OR c) AND w = (x AND w) OR (c AND w)"
    by (rule bit_word_eqI) (auto simp add: bit_simps)
  with b have "(x AND w) OR (c AND w) = 0" by simp
  then have "x AND w = 0" by (simp only: or_eq_0_iff)
  with a show False by simp
qed

lemma foreach_body_exact:
  "foreach_body K m u c ss ep h =
     (\<lambda>a. if port_match K m u ep \<and> find (wanted K h (sock ep)) ss = Some a
          then woken K c (h a) else h a)"
proof (cases "port_match K m u ep")
  case False
  then show ?thesis by (simp add: foreach_body_def)
next
  case True
  show ?thesis
  proof (cases "find (wanted K h (sock ep)) ss")
    case None
    with True show ?thesis by (simp add: foreach_body_def for_sockets_find)
  next
    case (Some s)
    with True show ?thesis
      by (auto simp add: foreach_body_def for_sockets_find fun_eq_iff)
  qed
qed

lemma flags_woken:
  "flags x AND COAP_SOCKET_WANT_READ K \<noteq> 0 \<Longrightarrow>
     flags (woken K c x) AND COAP_SOCKET_WANT_READ K \<noteq> 0"
  by (simp add: woken_def or_keeps_and)

lemma wanted_foreach_body:
  "wanted K (foreach_body K m u c ss ep h) e s = wanted K h e s"
proof -
  let ?h1 = "foreach_body K m u c ss ep h"
  have fds: "\<And>x. fd (?h1 x) = fd (h x)" by (rule fd_foreach_body)
  have "(flags (?h1 s) AND COAP_SOCKET_WANT_READ K \<noteq> 0)
          = (flags (h s) AND COAP_SOCKET_WANT_READ K \<noteq> 0)"
  proof (cases "port_match K m u ep \<and> find (wanted K h (sock ep)) ss = Some s")
    case False
    then have "?h1 s = h s" by (auto simp add: foreach_body_exact)
    then show ?thesis by simp
  next
    case True
    then have w: "wanted K h (sock ep) s" by (auto simp add: find_Some_iff)
    then have f: "flags (h s) AND COAP_SOCKET_WANT_READ K \<noteq> 0" by (simp add: wanted_def)
    from True have "?h1 s = woken K c (h s)" by (simp add: foreach_body_exact)
    with f flags_woken [OF f, of c] show ?thesis by simp
  qed
  then show ?thesis by (simp add: wanted_def fds)
qed

lemma woken_foreach_body:
  "woken K c (foreach_body K m u c ss ep h a) = woken K c (h a)"
  using foreach_body_cases [of K m u c ss ep h a] by (auto simp add: woken_idem)

lemma ll_foreach_exact:
  "ll_foreach K m u c ss eps h =
     (\<lambda>a. if \<exists>ep \<in> set eps. port_match K m u ep \<and> find (wanted K h (sock ep)) ss = Some a
          then woken K c (h a) else h a)"
proof (induction eps arbitrary: h)
  case Nil
  then show ?case by simp
next
  case (Cons ep eps)
  let ?h1 = "foreach_body K m u c ss ep h"
  have w: "\<And>e. wanted K ?h1 e = wanted K h e"
    by (rule ext) (rule wanted_foreach_body)
  have "ll_foreach K m u c ss (ep # eps) h = ll_foreach K m u c ss eps ?h1" by simp
  also have "\<dots> = (\<lambda>a. if \<exists>ep' \<in> set eps. port_match K m u ep' \<and>
                              find (wanted K h (sock ep')) ss = Some a
                         then woken K c (?h1 a) else ?h1 a)"
    by (simp only: Cons.IH w)
  also have "\<dots> = (\<lambda>a. if \<exists>ep' \<in> set (ep # eps). port_match K m u ep' \<and>
                              find (wanted K h (sock ep')) ss = Some a
                         then woken K c (h a) else h a)"
  proof (rule ext)
    fix a
    show "(if \<exists>ep' \<in> set eps. port_match K m u ep' \<and> find (wanted K h (sock ep')) ss = Some a
           then woken K c (?h1 a) else ?h1 a) =
          (if \<exists>ep' \<in> set (ep # eps). port_match K m u ep' \<and>
                 find (wanted K h (sock ep')) ss = Some a
           then woken K c (h a) else h a)"
      unfolding woken_foreach_body by (auto simp add: foreach_body_exact)
  qed
  finally show ?case .
qed

lemma dispatch_msg_rcv:
  assumes "type_msg msg = GNRC_NETAPI_MSG_TYPE_RCV K"
    and "get_udp_header (content_ptr msg) \<noteq> NULL"
  shows "dispatch_msg K msg ss w =
    w \<lparr> sockheap := ll_foreach K (mem w) (get_udp_header (content_ptr msg)) (content_ptr msg)
                      ss (endpoint w) (sockheap w) \<rparr>"
  using assms by (simp add: dispatch_msg_def Let_def)

lemma dispatch_msg_other:
  assumes "type_msg msg \<noteq> GNRC_NETAPI_MSG_TYPE_RCV K \<or> get_udp_header (content_ptr msg) = NULL"
  shows "dispatch_msg K msg ss w = w"
  using assms by (auto simp add: dispatch_msg_def Let_def)

text \<open>
  Claim C2, amended. The world that \<^verbatim>\<open>coap_run_once\<close> hands to the drive phase is
  the one its dispatch leaves. For a RECEIVE notification whose chain has a UDP header,
  the dispatch changes the sockets and nothing else, and it changes them exactly so:
  every endpoint of the list whose bound port equals the destination port of the
  datagram has one socket marked \<^verbatim>\<open>CAN_READ\<close> and given the chain, namely the first
  gathered socket with the endpoint's descriptor and \<^verbatim>\<open>WANT_READ\<close>; the scan of the
  endpoint list goes on after a match, so each of several endpoints sharing the port is
  served; every other socket is left as it was. For any other notification the dispatch
  changes nothing. Hence a socket changed by the dispatch is a gathered one, is changed
  in exactly that way, and has the descriptor of an endpoint bound to the destination
  port: an endpoint bound to another port wakes nothing.
\<close>

theorem C2_wake_per_matching_endpoint:
  assumes wr: "coap_write E (LIBCOAP_MAX_SOCKETS K) (clock w0) w0 = (t, ss, w1)"
    and rc: "xtimer_msg_receive_timeout E (T * US_PER_SEC K) w1 = (msg, w2)"
  shows "snd (snd (coap_run_once K E T w0)) = coap_read E (clock w2) (dispatch_msg K msg ss w2)
   \<and> (type_msg msg = GNRC_NETAPI_MSG_TYPE_RCV K \<and> get_udp_header (content_ptr msg) \<noteq> NULL \<longrightarrow>
        dispatch_msg K msg ss w2 =
          w2 \<lparr> sockheap :=
            (\<lambda>a. if \<exists>ep \<in> set (endpoint w2).
                       port_match K (mem w2) (get_udp_header (content_ptr msg)) ep \<and>
                       find (wanted K (sockheap w2) (sock ep)) ss = Some a
                  then woken K (content_ptr msg) (sockheap w2 a)
                  else sockheap w2 a) \<rparr>)
   \<and> (type_msg msg \<noteq> GNRC_NETAPI_MSG_TYPE_RCV K \<or> get_udp_header (content_ptr msg) = NULL \<longrightarrow>
        dispatch_msg K msg ss w2 = w2)
   \<and> (\<forall>a. sockheap (dispatch_msg K msg ss w2) a \<noteq> sockheap w2 a \<longrightarrow>
          sockheap (dispatch_msg K msg ss w2) a = woken K (content_ptr msg) (sockheap w2 a) \<and>
          a \<in> set ss \<and>
          (\<exists>ep \<in> set (endpoint w2).
             port_match K (mem w2) (get_udp_header (content_ptr msg)) ep \<and>
             fd (sockheap w2 (sock ep)) = fd (sockheap w2 a)))"
proof -
  let ?u = "get_udp_header (content_ptr msg)"
  have run: "snd (snd (coap_run_once K E T w0)) = coap_read E (clock w2) (dispatch_msg K msg ss w2)"
    by (simp add: coap_run_once_parts [OF wr rc])
  have scan: "dispatch_msg K msg ss w2 =
          w2 \<lparr> sockheap :=
            (\<lambda>a. if \<exists>ep \<in> set (endpoint w2).
                       port_match K (mem w2) ?u ep \<and>
                       find (wanted K (sockheap w2) (sock ep)) ss = Some a
                  then woken K (content_ptr msg) (sockheap w2 a)
                  else sockheap w2 a) \<rparr>"
    if c: "type_msg msg = GNRC_NETAPI_MSG_TYPE_RCV K \<and> ?u \<noteq> NULL"
    by (simp only: dispatch_msg_rcv [OF conjunct1 [OF c] conjunct2 [OF c]] ll_foreach_exact)
  have other: "dispatch_msg K msg ss w2 = w2"
    if "type_msg msg \<noteq> GNRC_NETAPI_MSG_TYPE_RCV K \<or> ?u = NULL"
    using that by (rule dispatch_msg_other)
  have changed: "sockheap (dispatch_msg K msg ss w2) a = woken K (content_ptr msg) (sockheap w2 a) \<and>
          a \<in> set ss \<and>
          (\<exists>ep \<in> set (endpoint w2).
             port_match K (mem w2) ?u ep \<and>
             fd (sockheap w2 (sock ep)) = fd (sockheap w2 a))"
    if ch: "sockheap (dispatch_msg K msg ss w2) a \<noteq> sockheap w2 a" for a
  proof -
    have "\<not> (type_msg msg \<noteq> GNRC_NETAPI_MSG_TYPE_RCV K \<or> ?u = NULL)"
    proof
      assume "type_msg msg \<noteq> GNRC_NETAPI_MSG_TYPE_RCV K \<or> ?u = NULL"
      then have "dispatch_msg K msg ss w2 = w2" by (rule other)
      with ch show False by simp
    qed
    then have t: "type_msg msg = GNRC_NETAPI_MSG_TYPE_RCV K" and nn: "?u \<noteq> NULL"
      by blast+
    have eq: "sockheap (dispatch_msg K msg ss w2) =
        ll_foreach K (mem w2) ?u (content_ptr msg) ss (endpoint w2) (sockheap w2)"
      by (simp add: dispatch_msg_rcv [OF t nn])
    from ch [unfolded eq] have r:
      "ll_foreach K (mem w2) ?u (content_ptr msg) ss (endpoint w2) (sockheap w2) a
         = woken K (content_ptr msg) (sockheap w2 a) \<and>
       a \<in> set ss \<and>
       (\<exists>ep \<in> set (endpoint w2).
          port_match K (mem w2) ?u ep \<and>
          fd (sockheap w2 (sock ep)) = fd (sockheap w2 a))"
      by (rule ll_foreach_changed)
    show ?thesis unfolding eq by (rule r)
  qed
  from run scan other changed show ?thesis by blast
qed

lemma rcv_is_rcv: "type_msg rcv_msg = GNRC_NETAPI_MSG_TYPE_RCV riot_config"
  by (simp add: rcv_msg_def riot_config_def)

lemma rcv_hdr_not_null: "get_udp_header (content_ptr rcv_msg) \<noteq> NULL"
  by (simp add: hdr_rcv NULL_def)

lemma first_wanted:
  "find (wanted riot_config (two_sockets 0x0010 0x0010) 1) [1, 2] = Some 1"
  "find (wanted riot_config (two_sockets 0x0010 0x0010) 2) [1, 2] = Some 2"
  by (simp_all add: wanted_def two_sockets_def socket_of_def riot_config_def)

lemma port_match_eps:
  "port_match riot_config datagram_mem 140 ep_a"
  "port_match riot_config datagram_mem 140 ep_b"
  "\<not> port_match riot_config datagram_mem 140 ep_c"
  by (simp_all add: port_match_def dst_datagram get_port_bind6 ep_a_def ep_b_def ep_c_def)

lemma sock_eps: "sock ep_a = 1" "sock ep_b = 2" "sock ep_c = 2"
  by (simp_all add: ep_a_def ep_b_def ep_c_def)

text \<open>
  One notification for port 5683 and two gathered sockets wanting to read. With
  endpoints on ports 5683 and 5684 the socket of the first is woken and that of the
  second is untouched; with both endpoints on port 5683 the socket of the second is
  woken as well.
\<close>

theorem C2_wake_per_matching_endpoint_witness:
  "sockheap (snd (snd (coap_run_once riot_config (env_of 0 [1, 2] rcv_msg 0 0) 100
       (world_of (two_sockets 0x0010 0x0010) [ep_a, ep_c])))) 1
     = woken riot_config datagram_chain (two_sockets 0x0010 0x0010 1)
   \<and> sockheap (snd (snd (coap_run_once riot_config (env_of 0 [1, 2] rcv_msg 0 0) 100
       (world_of (two_sockets 0x0010 0x0010) [ep_a, ep_c])))) 2
     = two_sockets 0x0010 0x0010 2
   \<and> sockheap (snd (snd (coap_run_once riot_config (env_of 0 [1, 2] rcv_msg 0 0) 100
       (world_of (two_sockets 0x0010 0x0010) [ep_a, ep_b])))) 2
     = woken riot_config datagram_chain (two_sockets 0x0010 0x0010 2)"
proof -
  let ?E = "env_of 0 [1, 2] rcv_msg 0 0"
  let ?h = "two_sockets 0x0010 0x0010"
  have conds: "type_msg rcv_msg = GNRC_NETAPI_MSG_TYPE_RCV riot_config
               \<and> get_udp_header (content_ptr rcv_msg) \<noteq> NULL"
    using rcv_is_rcv rcv_hdr_not_null by (rule conjI)
  have tk: "take (LIBCOAP_MAX_SOCKETS riot_config) [1, 2 :: nat] = [1, 2]"
    by (simp add: riot_config_def)
  have c: "content_ptr rcv_msg = datagram_chain" by (simp add: rcv_msg_def)
  have shape: "sockheap (snd (snd (coap_run_once riot_config ?E 100 (world_of ?h eps)))) a =
      (if \<exists>ep \<in> set eps. port_match riot_config datagram_mem 140 ep \<and>
                             find (wanted riot_config ?h (sock ep)) [1, 2] = Some a
       then woken riot_config datagram_chain (?h a) else ?h a)" for eps a
  proof -
    note spec = C2_wake_per_matching_endpoint [where E = ?E and K = riot_config and T = 100
        and ?w0.0 = "world_of ?h eps", OF env_of_write env_of_wait]
    from spec have run: "snd (snd (coap_run_once riot_config ?E 100 (world_of ?h eps))) =
        coap_read ?E (clock (world_of ?h eps \<lparr> clock := clock (world_of ?h eps) + 0 \<rparr>))
          (dispatch_msg riot_config rcv_msg (take (LIBCOAP_MAX_SOCKETS riot_config) [1, 2])
             (world_of ?h eps \<lparr> clock := clock (world_of ?h eps) + 0 \<rparr>))"
      by (rule conjunct1)
    from spec conds have scan:
      "dispatch_msg riot_config rcv_msg (take (LIBCOAP_MAX_SOCKETS riot_config) [1, 2])
             (world_of ?h eps \<lparr> clock := clock (world_of ?h eps) + 0 \<rparr>) =
       world_of ?h eps \<lparr> clock := clock (world_of ?h eps) + 0 \<rparr> \<lparr> sockheap :=
         (\<lambda>a. if \<exists>ep \<in> set (endpoint (world_of ?h eps \<lparr> clock := clock (world_of ?h eps) + 0 \<rparr>)).
                    port_match riot_config
                      (mem (world_of ?h eps \<lparr> clock := clock (world_of ?h eps) + 0 \<rparr>))
                      (get_udp_header (content_ptr rcv_msg)) ep \<and>
                    find (wanted riot_config
                      (sockheap (world_of ?h eps \<lparr> clock := clock (world_of ?h eps) + 0 \<rparr>))
                      (sock ep)) (take (LIBCOAP_MAX_SOCKETS riot_config) [1, 2]) = Some a
               then woken riot_config (content_ptr rcv_msg)
                      (sockheap (world_of ?h eps \<lparr> clock := clock (world_of ?h eps) + 0 \<rparr>) a)
               else sockheap (world_of ?h eps \<lparr> clock := clock (world_of ?h eps) + 0 \<rparr>) a) \<rparr>"
      by blast
    have e: "endpoint (world_of ?h eps \<lparr> clock := clock (world_of ?h eps) + 0 \<rparr>) = eps"
      and m: "mem (world_of ?h eps \<lparr> clock := clock (world_of ?h eps) + 0 \<rparr>) = datagram_mem"
      and h: "sockheap (world_of ?h eps \<lparr> clock := clock (world_of ?h eps) + 0 \<rparr>) = ?h"
      by (simp_all add: world_of_def)
    have rd: "sockheap (coap_read ?E n (W \<lparr> sockheap := F \<rparr>)) = F" for n W F
      by (simp add: env_of_read)
    show ?thesis
      apply (simp only: run [unfolded tk])
      apply (simp only: scan [unfolded tk])
      apply (simp only: rd)
      apply (simp only: e m h hdr_rcv)
      apply (simp only: c)
      done
  qed
  have a1: "\<exists>ep \<in> set [ep_a, ep_c]. port_match riot_config datagram_mem 140 ep \<and>
              find (wanted riot_config ?h (sock ep)) [1, 2] = Some 1"
  proof (rule bexI [where x = ep_a])
    show "port_match riot_config datagram_mem 140 ep_a \<and>
            find (wanted riot_config ?h (sock ep_a)) [1, 2] = Some 1"
      by (simp only: port_match_eps sock_eps first_wanted simp_thms)
    show "ep_a \<in> set [ep_a, ep_c]" by simp
  qed
  have a2: "\<not> (\<exists>ep \<in> set [ep_a, ep_c]. port_match riot_config datagram_mem 140 ep \<and>
              find (wanted riot_config ?h (sock ep)) [1, 2] = Some 2)"
  proof
    assume "\<exists>ep \<in> set [ep_a, ep_c]. port_match riot_config datagram_mem 140 ep \<and>
              find (wanted riot_config ?h (sock ep)) [1, 2] = Some 2"
    then consider
      "find (wanted riot_config ?h (sock ep_a)) [1, 2] = Some 2"
      | "port_match riot_config datagram_mem 140 ep_c"
      by auto
    then show False
    proof cases
      case 1
      then have "Some (1 :: nat) = Some 2" by (simp only: sock_eps first_wanted)
      then show False by simp
    next
      case 2
      with port_match_eps(3) show False by (rule notE)
    qed
  qed
  have a3: "\<exists>ep \<in> set [ep_a, ep_b]. port_match riot_config datagram_mem 140 ep \<and>
              find (wanted riot_config ?h (sock ep)) [1, 2] = Some 2"
  proof (rule bexI [where x = ep_b])
    show "port_match riot_config datagram_mem 140 ep_b \<and>
            find (wanted riot_config ?h (sock ep_b)) [1, 2] = Some 2"
      by (simp only: port_match_eps sock_eps first_wanted simp_thms)
    show "ep_b \<in> set [ep_a, ep_b]" by simp
  qed
  show ?thesis
    by (simp only: shape a1 a2 a3 if_True if_False simp_thms)
qed

end
